theory Spec2Isabelle
  imports Main "HOL-Library.Word" "HOL-Library.List_Lexorder" "HOL-Library.Product_Lexorder"
begin

unbundle bit_operations_syntax

section \<open>Python values used by \<^verbatim>\<open>triton-cache-keygen.py\<close>\<close>

text \<open>
  A Python \<^verbatim>\<open>str\<close> is a sequence of Unicode code points; it is modelled as the list of
  their numbers. Python compares strings code point by code point, a proper prefix being
  smaller, which is the lexicographic order on lists. \<^verbatim>\<open>bytes\<close> are lists of 8-bit words.
\<close>

type_synonym pystr = "nat list"
type_synonym byte = "8 word"
type_synonym u32 = "32 word"

definition lit :: "string \<Rightarrow> pystr" where
  "lit s = map of_char s"

text \<open>
  The exceptions of the model are instances of Python's \<^verbatim>\<open>Exception\<close>; the clause
  \<^verbatim>\<open>except ImportError\<close> also catches the subclass \<^verbatim>\<open>ModuleNotFoundError\<close>.
\<close>

datatype exc =
    ImportError
  | ModuleNotFoundError
  | UnicodeEncodeError
  | TypeError
  | AttributeError
  | RuntimeError
  | OtherException pystr

fun is_ImportError :: "exc \<Rightarrow> bool" where
  "is_ImportError ImportError = True"
| "is_ImportError ModuleNotFoundError = True"
| "is_ImportError _ = False"

subsection \<open>\<^verbatim>\<open>str.encode()\<close>: UTF-8\<close>

text \<open>
  \<^verbatim>\<open>s.encode()\<close> encodes to UTF-8 and raises \<^verbatim>\<open>UnicodeEncodeError\<close> on a lone
  surrogate (U+D800 to U+DFFF). Numbers from \<^verbatim>\<open>0x110000\<close> on are no code points.
\<close>

definition utf8_char :: "nat \<Rightarrow> byte list option" where
  "utf8_char cp =
     (if cp < 0x80 then Some [of_nat cp]
      else if cp < 0x800 then Some [of_nat (0xC0 + cp div 64), of_nat (0x80 + cp mod 64)]
      else if cp < 0x10000 then
        (if 0xD800 \<le> cp \<and> cp \<le> 0xDFFF then None
         else Some [of_nat (0xE0 + cp div 4096), of_nat (0x80 + cp div 64 mod 64),
                    of_nat (0x80 + cp mod 64)])
      else if cp < 0x110000 then
        Some [of_nat (0xF0 + cp div 262144), of_nat (0x80 + cp div 4096 mod 64),
              of_nat (0x80 + cp div 64 mod 64), of_nat (0x80 + cp mod 64)]
      else None)"

fun encode :: "pystr \<Rightarrow> exc + byte list" where
  "encode [] = Inr []"
| "encode (c # cs) =
     (case utf8_char c of
        None \<Rightarrow> Inl UnicodeEncodeError
      | Some bs \<Rightarrow> (case encode cs of Inl e \<Rightarrow> Inl e | Inr rest \<Rightarrow> Inr (bs @ rest)))"

subsection \<open>\<^verbatim>\<open>str(int)\<close> and \<^verbatim>\<open>'sep'.join\<close>\<close>

function digits :: "nat \<Rightarrow> pystr" where
  "digits n = (if n < 10 then [48 + n] else digits (n div 10) @ [48 + n mod 10])"
  by pat_completeness auto
termination
  by (relation "measure id") auto

declare digits.simps [simp del]

definition str_int :: "int \<Rightarrow> pystr" where
  "str_int i = (if i < 0 then 45 # digits (nat (- i)) else digits (nat i))"

fun join :: "pystr \<Rightarrow> pystr list \<Rightarrow> pystr" where
  "join sep [] = []"
| "join sep [x] = x"
| "join sep (x # y # ys) = x @ sep @ join sep (y # ys)"

subsection \<open>\<^verbatim>\<open>json.dumps\<close>\<close>

text \<open>
  The values the program serialises: strings, integers, booleans, lists (tuples are written
  as lists) and dictionaries with string keys, kept in insertion order.
\<close>

datatype json =
    JStr pystr
  | JInt int
  | JBool bool
  | JList "json list"
  | JDict "(pystr \<times> json) list"

definition hexdigit :: "nat \<Rightarrow> nat" where
  "hexdigit n = (if n < 10 then 48 + n else 87 + n)"

definition hex4 :: "nat \<Rightarrow> pystr" where
  "hex4 n = [hexdigit (n div 4096 mod 16), hexdigit (n div 256 mod 16),
             hexdigit (n div 16 mod 16), hexdigit (n mod 16)]"

text \<open>
  \<^verbatim>\<open>ensure_ascii\<close> is on by default: everything outside the range from space to tilde
  is escaped, a code point beyond the basic plane as a surrogate pair. \<^verbatim>\<open>0x5C\<close> is the
  backslash, \<^verbatim>\<open>0x22\<close> the double quote, \<^verbatim>\<open>0x75\<close> the letter u.
\<close>

definition escape_char :: "nat \<Rightarrow> pystr" where
  "escape_char c =
     (if c = 0x22 then [0x5C, 0x22]
      else if c = 0x5C then [0x5C, 0x5C]
      else if c = 0x0A then [0x5C, 0x6E]
      else if c = 0x0D then [0x5C, 0x72]
      else if c = 0x09 then [0x5C, 0x74]
      else if c = 0x08 then [0x5C, 0x62]
      else if c = 0x0C then [0x5C, 0x66]
      else if 0x20 \<le> c \<and> c \<le> 0x7E then [c]
      else if c < 0x10000 then [0x5C, 0x75] @ hex4 c
      else [0x5C, 0x75] @ hex4 (0xD800 + (c - 0x10000) div 1024 mod 1024)
         @ [0x5C, 0x75] @ hex4 (0xDC00 + (c - 0x10000) mod 1024))"

definition encode_basestring_ascii :: "pystr \<Rightarrow> pystr" where
  "encode_basestring_ascii s = 0x22 # concat (map escape_char s) @ [0x22]"

definition newline_indent :: "nat option \<Rightarrow> nat \<Rightarrow> pystr" where
  "newline_indent indent level =
     (case indent of None \<Rightarrow> [] | Some n \<Rightarrow> 0x0A # replicate (n * level) 0x20)"

definition item_separator :: "nat option \<Rightarrow> nat \<Rightarrow> pystr" where
  "item_separator indent level =
     (case indent of None \<Rightarrow> lit '', '' | Some n \<Rightarrow> 0x2C # newline_indent indent level)"

text \<open>
  \<^verbatim>\<open>dumps_at indent sort_keys level v\<close>: \<^verbatim>\<open>json.dumps(v, indent=indent, sort_keys=sort_keys)\<close>
  at nesting depth \<^verbatim>\<open>level\<close>. With \<^verbatim>\<open>sort_keys\<close> the items of a dictionary are sorted.
\<close>

function dumps_at :: "nat option \<Rightarrow> bool \<Rightarrow> nat \<Rightarrow> json \<Rightarrow> pystr" where
  "dumps_at indent sk level (JStr s) = encode_basestring_ascii s"
| "dumps_at indent sk level (JInt i) = str_int i"
| "dumps_at indent sk level (JBool b) = (if b then lit ''true'' else lit ''false'')"
| "dumps_at indent sk level (JList xs) =
     (if xs = [] then lit ''[]''
      else 0x5B # newline_indent indent (Suc level)
         @ join (item_separator indent (Suc level)) (map (dumps_at indent sk (Suc level)) xs)
         @ newline_indent indent level @ [0x5D])"
| "dumps_at indent sk level (JDict kvs) =
     (if kvs = [] then lit ''{}''
      else 0x7B # newline_indent indent (Suc level)
         @ join (item_separator indent (Suc level))
             (map (\<lambda>(k, v). encode_basestring_ascii k @ lit '': '' @ dumps_at indent sk (Suc level) v)
                  (if sk then sort_key fst kvs else kvs))
         @ newline_indent indent level @ [0x7D])"
  by pat_completeness auto
termination
proof (relation "measure (\<lambda>(indent, sk, level, v). size v)")
  have elem: "x \<in> set xs \<Longrightarrow> size x < Suc (size_list size xs)"
    for x :: json and xs
    by (induction xs) auto
  have val: "(k, v) \<in> set kvs \<Longrightarrow> size v < Suc (size_list (size_prod (\<lambda>_. 0) size) kvs)"
    for k :: pystr and v :: json and kvs
    by (induction kvs) auto
  show "wf (measure (\<lambda>(indent :: nat option, sk :: bool, level :: nat, v :: json). size v))"
    by simp
  show "((indent, sk, Suc level, x), (indent, sk, level, JList xs))
      \<in> measure (\<lambda>(indent, sk, level, v). size v)"
    if "xs \<noteq> []" and "x \<in> set xs"
    for indent :: "nat option" and sk :: bool and level :: nat and xs :: "json list" and x
    using that by (simp add: elem)
  show "((indent, sk, Suc level, v), (indent, sk, level, JDict kvs))
      \<in> measure (\<lambda>(indent, sk, level, v). size v)"
    if "kvs \<noteq> []" and "x \<in> set (if sk then sort_key fst kvs else kvs)" and "(k, v) = x"
    for indent :: "nat option" and sk :: bool and level :: nat
      and kvs :: "(pystr \<times> json) list" and x k v
  proof -
    from that have "(k, v) \<in> set kvs"
      by (simp split: if_splits)
    then show ?thesis
      by (simp add: val)
  qed
qed

definition dumps :: "nat option \<Rightarrow> bool \<Rightarrow> json \<Rightarrow> pystr" where
  "dumps indent sk v = dumps_at indent sk 0 v"

subsection \<open>\<^verbatim>\<open>hashlib.sha256(...).hexdigest()\<close>\<close>

text \<open>
  SHA-256 as in FIPS 180-4, on 32-bit words: the message is padded to a multiple of 64
  bytes, cut into blocks, and each block is compressed into the eight-word state. The
  round constants \<^verbatim>\<open>K256\<close> are the first 32 bits of the fractional parts of the cube
  roots of the first 64 primes, the initial state \<^verbatim>\<open>H256\<close> those of the square roots of
  the first 8 primes; both are written in decimal.
\<close>

definition rotr :: "nat \<Rightarrow> u32 \<Rightarrow> u32" where
  "rotr n x = drop_bit n x OR push_bit (32 - n) x"

definition Ch :: "u32 \<Rightarrow> u32 \<Rightarrow> u32 \<Rightarrow> u32" where
  "Ch x y z = (x AND y) XOR (NOT x AND z)"

definition Maj :: "u32 \<Rightarrow> u32 \<Rightarrow> u32 \<Rightarrow> u32" where
  "Maj x y z = (x AND y) XOR (x AND z) XOR (y AND z)"

definition Sigma0 :: "u32 \<Rightarrow> u32" where
  "Sigma0 x = rotr 2 x XOR rotr 13 x XOR rotr 22 x"

definition Sigma1 :: "u32 \<Rightarrow> u32" where
  "Sigma1 x = rotr 6 x XOR rotr 11 x XOR rotr 25 x"

definition sigma0 :: "u32 \<Rightarrow> u32" where
  "sigma0 x = rotr 7 x XOR rotr 18 x XOR drop_bit 3 x"

definition sigma1 :: "u32 \<Rightarrow> u32" where
  "sigma1 x = rotr 17 x XOR rotr 19 x XOR drop_bit 10 x"

definition K256 :: "u32 list" where
  "K256 = [
  1116352408, 1899447441, 3049323471, 3921009573, 961987163, 1508970993, 2453635748, 2870763221,
  3624381080, 310598401, 607225278, 1426881987, 1925078388, 2162078206, 2614888103, 3248222580,
  3835390401, 4022224774, 264347078, 604807628, 770255983, 1249150122, 1555081692, 1996064986,
  2554220882, 2821834349, 2952996808, 3210313671, 3336571891, 3584528711, 113926993, 338241895,
  666307205, 773529912, 1294757372, 1396182291, 1695183700, 1986661051, 2177026350, 2456956037,
  2730485921, 2820302411, 3259730800, 3345764771, 3516065817, 3600352804, 4094571909, 275423344,
  430227734, 506948616, 659060556, 883997877, 958139571, 1322822218, 1537002063, 1747873779,
  1955562222, 2024104815, 2227730452, 2361852424, 2428436474, 2756734187, 3204031479, 3329325298]"

type_synonym hstate = "u32 \<times> u32 \<times> u32 \<times> u32 \<times> u32 \<times> u32 \<times> u32 \<times> u32"

definition H256 :: hstate where
  "H256 = (1779033703, 3144134277, 1013904242, 2773480762,
           1359893119, 2600822924, 528734635, 1541459225)"

text \<open>Padding: the byte \<^verbatim>\<open>0x80\<close>, zeros, and the bit length as a 64-bit big-endian number.\<close>

definition pad :: "byte list \<Rightarrow> byte list" where
  "pad m =
     (let l = length m; k = (119 - l mod 64) mod 64
      in m @ [0x80] @ replicate k 0
           @ map (\<lambda>i. ucast (drop_bit (8 * i) (of_nat (8 * l) :: 64 word))) (rev [0..<8]))"

fun be_words :: "byte list \<Rightarrow> u32 list" where
  "be_words (a # b # c # d # bs) =
     (push_bit 24 (ucast a) OR push_bit 16 (ucast b) OR push_bit 8 (ucast c) OR ucast d)
       # be_words bs"
| "be_words _ = []"

text \<open>
  The message schedule, kept as a window of the last sixteen words: \<^verbatim>\<open>schedule n w\<close>
  gives the next \<^verbatim>\<open>n\<close> words.
\<close>

fun schedule :: "nat \<Rightarrow> u32 list \<Rightarrow> u32 list" where
  "schedule 0 w = []"
| "schedule (Suc n) w =
     hd w # schedule n (tl w @ [sigma1 (w ! 14) + w ! 9 + sigma0 (w ! 1) + w ! 0])"

fun round :: "hstate \<Rightarrow> u32 \<times> u32 \<Rightarrow> hstate" where
  "round (a, b, c, d, e, f, g, h) (k, w) =
     (let t1 = h + Sigma1 e + Ch e f g + k + w;
          t2 = Sigma0 a + Maj a b c
      in (t1 + t2, a, b, c, d + t1, e, f, g))"

fun add_state :: "hstate \<Rightarrow> hstate \<Rightarrow> hstate" where
  "add_state (a, b, c, d, e, f, g, h) (a', b', c', d', e', f', g', h') =
     (a + a', b + b', c + c', d + d', e + e', f + f', g + g', h + h')"

definition compress :: "hstate \<Rightarrow> byte list \<Rightarrow> hstate" where
  "compress s blk = add_state s (foldl round s (zip K256 (schedule 64 (be_words blk))))"

fun blocks :: "nat \<Rightarrow> hstate \<Rightarrow> byte list \<Rightarrow> hstate" where
  "blocks 0 s m = s"
| "blocks (Suc n) s m = blocks n (compress s (take 64 m)) (drop 64 m)"

definition sha256 :: "byte list \<Rightarrow> hstate" where
  "sha256 m = (let p = pad m in blocks (length p div 64) H256 p)"

definition hex32 :: "u32 \<Rightarrow> pystr" where
  "hex32 w = map (\<lambda>i. hexdigit (unat (drop_bit (4 * i) w AND 15))) (rev [0..<8])"

fun hexdigest :: "hstate \<Rightarrow> pystr" where
  "hexdigest (a, b, c, d, e, f, g, h) =
     hex32 a @ hex32 b @ hex32 c @ hex32 d @ hex32 e @ hex32 f @ hex32 g @ hex32 h"

definition sha256_hexdigest :: "byte list \<Rightarrow> pystr" where
  "sha256_hexdigest m = hexdigest (sha256 m)"

section \<open>The program\<close>

text \<open>
  What the program reads from outside: the three calls into Triton, each of which returns
  a value or raises, and the process environment. \<^verbatim>\<open>GPUTarget\<close> has a backend name, an
  architecture that is a number or a string, and a warp size. The dictionary of
  cache-invalidating variables is a list of pairs in insertion order. Log records go to
  the standard error stream and are left out.
\<close>

datatype arch_value = ArchInt int | ArchStr pystr

record target =
  backend :: pystr
  arch :: arch_value
  warp_size :: int

record world =
  triton_key_call :: "exc + pystr"
  driver_call :: "exc + target"
  env_vars_call :: "exc + (pystr \<times> pystr) list"
  environ :: "pystr \<Rightarrow> pystr option"

definition getenv :: "world \<Rightarrow> pystr \<Rightarrow> pystr \<Rightarrow> pystr" where
  "getenv w name dflt = (case environ w name of None \<Rightarrow> dflt | Some v \<Rightarrow> v)"

text \<open>\<^verbatim>\<open>get_cache_invalidating_env_vars\<close>: only an \<^verbatim>\<open>ImportError\<close> is caught.\<close>

definition get_cache_invalidating_env_vars :: "world \<Rightarrow> exc + (pystr \<times> pystr) list" where
  "get_cache_invalidating_env_vars w =
     (case env_vars_call w of
        Inr vars \<Rightarrow> Inr vars
      | Inl e \<Rightarrow> (if is_ImportError e then Inr [] else Inl e))"

definition format_arch :: "arch_value \<Rightarrow> pystr" where
  "format_arch a = (case a of ArchInt i \<Rightarrow> str_int i | ArchStr s \<Rightarrow> s)"

text \<open>\<^verbatim>\<open>get_current_target\<close>: every \<^verbatim>\<open>Exception\<close> is caught.\<close>

definition get_current_target :: "world \<Rightarrow> pystr" where
  "get_current_target w =
     (case driver_call w of
        Inr t \<Rightarrow> backend t @ lit ''-'' @ format_arch (arch t) @ lit ''-'' @ str_int (warp_size t)
      | Inl e \<Rightarrow> lit ''unknown-backend-0-0'')"

definition get_env_vars_for_cache :: "world \<Rightarrow> exc + (pystr \<times> pystr) list" where
  "get_env_vars_for_cache w = get_cache_invalidating_env_vars w"

text \<open>
  The dictionary \<^verbatim>\<open>components\<close>, with its nested dictionaries flattened: the field
  \<^verbatim>\<open>c_source_hash\<close> is \<^verbatim>\<open>components['source']['hash']\<close>, and so on.
\<close>

record components =
  c_triton_key :: pystr
  c_source_content :: pystr
  c_source_hash :: pystr
  c_backend_info :: pystr
  c_backend_hash :: pystr
  c_options_values :: json
  c_options_hash :: pystr
  c_environment_variables :: "(pystr \<times> pystr) list"
  c_environment_hash :: pystr
  c_final_composite :: pystr

text \<open>\<^verbatim>\<open>hashlib.sha256(s.encode()).hexdigest()\<close>\<close>

definition sha256_of_str :: "pystr \<Rightarrow> exc + pystr" where
  "sha256_of_str s = (case encode s of Inl e \<Rightarrow> Inl e | Inr b \<Rightarrow> Inr (sha256_hexdigest b))"

definition source_or_dummy :: "pystr option \<Rightarrow> pystr" where
  "source_or_dummy source_hash =
     (case source_hash of
        None \<Rightarrow> lit ''dummy_source_content''
      | Some s \<Rightarrow> (if s = [] then lit ''dummy_source_content'' else s))"

definition options_dict :: "world \<Rightarrow> json" where
  "options_dict w =
     JDict [(lit ''num_warps'', JInt 4),
            (lit ''num_stages'', JInt 3),
            (lit ''debug'', JBool (getenv w (lit ''TRITON_DEBUG'') (lit ''0'') = lit ''1''))]"

definition env_items_json :: "(pystr \<times> pystr) list \<Rightarrow> json" where
  "env_items_json env_vars = JList (map (\<lambda>(k, v). JList [JStr k, JStr v]) (sort env_vars))"

text \<open>
  \<^verbatim>\<open>generate_triton_cache_key\<close>. The \<^verbatim>\<open>except Exception\<close> clause logs and raises
  again, so an exception of any step is the result.
\<close>

definition generate_triton_cache_key :: "world \<Rightarrow> pystr option \<Rightarrow> exc + pystr \<times> components" where
  "generate_triton_cache_key w source_hash =
     (case triton_key_call w of Inl e \<Rightarrow> Inl e | Inr tk \<Rightarrow>
      let source_content = source_or_dummy source_hash in
      case sha256_of_str source_content of Inl e \<Rightarrow> Inl e | Inr sh \<Rightarrow>
      let backend_info = get_current_target w in
      case sha256_of_str backend_info of Inl e \<Rightarrow> Inl e | Inr bh \<Rightarrow>
      let options = options_dict w in
      case sha256_of_str (dumps None True options) of Inl e \<Rightarrow> Inl e | Inr oh \<Rightarrow>
      case get_env_vars_for_cache w of Inl e \<Rightarrow> Inl e | Inr env_vars \<Rightarrow>
      case sha256_of_str (dumps None True (env_items_json env_vars)) of Inl e \<Rightarrow> Inl e | Inr eh \<Rightarrow>
      let key_components = tk @ lit ''-'' @ sh @ lit ''-'' @ bh @ lit ''-'' @ oh @ lit ''-'' @ eh in
      case sha256_of_str key_components of Inl e \<Rightarrow> Inl e | Inr final_hash \<Rightarrow>
      Inr (final_hash,
           \<lparr>c_triton_key = tk,
            c_source_content = source_content, c_source_hash = sh,
            c_backend_info = backend_info, c_backend_hash = bh,
            c_options_values = options, c_options_hash = oh,
            c_environment_variables = env_vars, c_environment_hash = eh,
            c_final_composite = key_components\<rparr>))"

text \<open>\<^verbatim>\<open>format_component\<close>: a dictionary, then a list or tuple, then \<^verbatim>\<open>str(component)\<close>.\<close>

fun str_items :: "json list \<Rightarrow> exc + pystr list" where
  "str_items [] = Inr []"
| "str_items (JStr s # xs) = (case str_items xs of Inl e \<Rightarrow> Inl e | Inr ss \<Rightarrow> Inr (s # ss))"
| "str_items (_ # xs) = Inl TypeError"

fun format_component :: "json \<Rightarrow> exc + pystr" where
  "format_component (JDict kvs) = Inr (dumps (Some 2) True (JDict kvs))"
| "format_component (JList xs) =
     (case str_items xs of Inl e \<Rightarrow> Inl e | Inr ss \<Rightarrow> Inr (join [0x0A] ss))"
| "format_component (JStr s) = Inr s"
| "format_component (JInt i) = Inr (str_int i)"
| "format_component (JBool b) = Inr (if b then lit ''True'' else lit ''False'')"

text \<open>
  The main block. Standard output is the text written so far; \<^verbatim>\<open>print\<close> appends its
  argument and a newline. The result is the output and the exit status.
\<close>

fun run_prints :: "(exc + pystr) list \<Rightarrow> pystr \<Rightarrow> pystr \<times> exc option" where
  "run_prints [] out = (out, None)"
| "run_prints (Inl e # rest) out = (out, Some e)"
| "run_prints (Inr s # rest) out = run_prints rest (out @ s @ [0x0A])"

definition verbose_prints :: "components \<Rightarrow> (exc + pystr) list" where
  "verbose_prints c =
     [Inr (0x0A # lit ''Cache Key Components Breakdown:''),
      Inr (replicate 40 0x2D),
      Inr (0x0A # lit ''1. Triton Installation Fingerprint:''),
      format_component (JStr (c_triton_key c)),
      Inr (0x0A # lit ''2. Source Code:''),
      format_component (JDict [(lit ''content'', JStr (c_source_content c)),
                               (lit ''hash'', JStr (c_source_hash c))]),
      Inr (0x0A # lit ''3. Backend Configuration:''),
      format_component (JDict [(lit ''info'', JStr (c_backend_info c)),
                               (lit ''hash'', JStr (c_backend_hash c))]),
      Inr (0x0A # lit ''4. Compilation Options:''),
      format_component (JDict [(lit ''values'', c_options_values c),
                               (lit ''hash'', JStr (c_options_hash c))]),
      Inr (0x0A # lit ''5. Environment Variables:''),
      format_component (JDict (map (\<lambda>(k, v). (k, JStr v)) (c_environment_variables c))),
      Inr (0x0A # lit ''6. Final Composite String:''),
      format_component (JStr (c_final_composite c)),
      Inr (0x0A # replicate 40 0x3D),
      Inr (lit ''Final Cache Key:'')]"

definition main :: "world \<Rightarrow> bool \<Rightarrow> pystr \<times> int" where
  "main w verbose =
     (case generate_triton_cache_key w None of
        Inl e \<Rightarrow> ([], 1)
      | Inr (cache_key, c) \<Rightarrow>
          (case run_prints ((if verbose then verbose_prints c else []) @ [Inr (0x0A # cache_key)]) [] of
             (out, None) \<Rightarrow> (out, 0)
           | (out, Some e) \<Rightarrow> (out, 1)))"

section \<open>Properties\<close>

subsection \<open>Predicates and example inputs\<close>

definition is_ascii :: "pystr \<Rightarrow> bool" where
  "is_ascii s = list_all (\<lambda>c. c < 128) s"

text \<open>A lowercase hexadecimal string of 64 characters.\<close>

definition is_hex64 :: "pystr \<Rightarrow> bool" where
  "is_hex64 s = (length s = 64 \<and> set s \<subseteq> set (lit ''0123456789abcdef''))"

text \<open>An example of the dictionary of cache-invalidating variables, not in sorted order.\<close>

definition ev_ok :: "(pystr \<times> pystr) list" where
  "ev_ok = [(lit ''TRITON_B'', lit ''1''), (lit ''TRITON_A'', lit ''x'')]"

text \<open>
  An example of the outside world: every query answers, the driver reports a CUDA target,
  the registry two variables (not in sorted order), and \<^verbatim>\<open>TRITON_DEBUG\<close> is not set.
\<close>

definition w_ok :: world where
  "w_ok = \<lparr>triton_key_call = Inr (lit ''3.2.0-abc''),
           driver_call = Inr \<lparr>backend = lit ''cuda'', arch = ArchInt 90, warp_size = 32\<rparr>,
           env_vars_call = Inr ev_ok,
           environ = (\<lambda>_. None)\<rparr>"

text \<open>
  A second world, which differs from the first in the driver's answer (the architecture is
  the string \<^verbatim>\<open>90\<close>, not the number) and in the environment (\<^verbatim>\<open>HOME\<close> is set).
\<close>

definition w_alt :: world where
  "w_alt = \<lparr>triton_key_call = Inr (lit ''3.2.0-abc''),
            driver_call = Inr \<lparr>backend = lit ''cuda'', arch = ArchStr (lit ''90''), warp_size = 32\<rparr>,
            env_vars_call = Inr ev_ok,
            environ = (\<lambda>name. if name = lit ''HOME'' then Some (lit ''/root'') else None)\<rparr>"

subsection \<open>Encoding and digests\<close>

lemma is_ascii_simps [simp]:
  "is_ascii []"
  "is_ascii (c # cs) = (c < 128 \<and> is_ascii cs)"
  "is_ascii (xs @ ys) = (is_ascii xs \<and> is_ascii ys)"
  by (simp_all add: is_ascii_def)

lemma encode_ascii: "is_ascii s \<Longrightarrow> encode s = Inr (map of_nat s)"
  by (induction s) (simp_all add: utf8_char_def)

lemma encode_append:
  "encode (xs @ ys) =
     (case encode xs of Inl e \<Rightarrow> Inl e
      | Inr a \<Rightarrow> (case encode ys of Inl e \<Rightarrow> Inl e | Inr b \<Rightarrow> Inr (a @ b)))"
  by (induction xs) (simp_all split: option.splits sum.splits)

lemma is_ascii_lit_hyphen: "is_ascii (lit ''-'')"
  by (simp add: lit_def)

lemma hexdigit_range: "n < 16 \<Longrightarrow> hexdigit n \<in> set (lit ''0123456789abcdef'')"
proof -
  assume "n < 16"
  then have "n \<in> set [0..<16]" by simp
  also have "[0..<16] = [0, 1, 2, 3, 4, 5, 6, 7, 8, 9, 10, 11, 12, 13, 14, 15 :: nat]"
    by (simp add: upt_rec)
  finally show ?thesis
    by (auto simp: hexdigit_def lit_def)
qed

lemma unat_and_15: "unat ((x :: u32) AND 15) < 16"
proof -
  have low: "x AND 15 = take_bit 4 x"
    by (simp add: take_bit_eq_mask mask_eq_exp_minus_1)
  have "take_bit 4 (unat x) < 2 ^ 4"
    by (rule take_bit_nat_less_exp)
  then show ?thesis
    by (simp add: low unsigned_take_bit_eq)
qed

lemma length_hex32: "length (hex32 w) = 8"
  by (simp add: hex32_def)

lemma set_hex32: "set (hex32 w) \<subseteq> set (lit ''0123456789abcdef'')"
  unfolding hex32_def using hexdigit_range [OF unat_and_15] by auto

lemma is_hex64_hexdigest: "is_hex64 (hexdigest st)"
proof -
  obtain a b c d e f g h where st: "st = (a, b, c, d, e, f, g, h)"
    by (cases st) auto
  show ?thesis
    unfolding st is_hex64_def using set_hex32 by (simp add: length_hex32)
qed

lemma is_hex64_sha256: "is_hex64 (sha256_hexdigest m)"
  by (simp add: sha256_hexdigest_def is_hex64_hexdigest)

lemma is_hex64_ascii: "is_hex64 s \<Longrightarrow> is_ascii s"
  unfolding is_hex64_def is_ascii_def list_all_iff
  by (auto simp: lit_def)

lemma sha256_of_str_Inr:
  "sha256_of_str s = Inr h \<longleftrightarrow> (\<exists>b. encode s = Inr b \<and> h = sha256_hexdigest b)"
  by (auto simp: sha256_of_str_def split: sum.splits)

subsection \<open>The serialisations are ASCII\<close>

lemma is_ascii_digits: "is_ascii (digits n)"
proof (induction n rule: digits.induct)
  case (1 n)
  show ?case
  proof (cases "n < 10")
    case True
    then show ?thesis by (subst digits.simps) simp
  next
    case False
    have "48 + n mod 10 < 128" by simp
    with False 1 show ?thesis by (subst digits.simps) simp
  qed
qed

lemma is_ascii_str_int: "is_ascii (str_int i)"
  by (simp add: str_int_def is_ascii_digits)

lemma hexdigit_less: "m < 16 \<Longrightarrow> hexdigit m < 128"
  by (simp add: hexdigit_def)

lemma hexdigit_ascii: "hexdigit (n mod 16) < 128"
  by (rule hexdigit_less) simp

lemma is_ascii_hex4: "is_ascii (hex4 n)"
  by (simp add: hex4_def hexdigit_ascii)

lemma is_ascii_escape_char: "is_ascii (escape_char c)"
  by (simp add: escape_char_def is_ascii_hex4)

lemma is_ascii_concat: "(\<And>x. x \<in> set xs \<Longrightarrow> is_ascii x) \<Longrightarrow> is_ascii (concat xs)"
  by (induction xs) simp_all

lemma is_ascii_encode_basestring_ascii: "is_ascii (encode_basestring_ascii s)"
  by (auto simp: encode_basestring_ascii_def is_ascii_escape_char intro!: is_ascii_concat)

lemma is_ascii_replicate: "c < 128 \<Longrightarrow> is_ascii (replicate n c)"
  by (induction n) simp_all

lemma is_ascii_newline_indent: "is_ascii (newline_indent indent level)"
  by (simp add: newline_indent_def is_ascii_replicate split: option.splits)

lemma is_ascii_item_separator: "is_ascii (item_separator indent level)"
  by (simp add: item_separator_def is_ascii_newline_indent lit_def split: option.splits)

lemma is_ascii_join:
  "is_ascii sep \<Longrightarrow> (\<And>x. x \<in> set xs \<Longrightarrow> is_ascii x) \<Longrightarrow> is_ascii (join sep xs)"
  by (induction sep xs rule: join.induct) simp_all

lemma is_ascii_dumps_at: "is_ascii (dumps_at indent sk level v)"
proof (induction indent sk level v rule: dumps_at.induct)
  case (1 indent sk level s)
  then show ?case by (simp add: is_ascii_encode_basestring_ascii)
next
  case (2 indent sk level i)
  then show ?case by (simp add: is_ascii_str_int)
next
  case (3 indent sk level b)
  then show ?case by (simp add: lit_def)
next
  case (4 indent sk level xs)
  show ?case
  proof (cases "xs = []")
    case True
    then show ?thesis by (simp add: lit_def)
  next
    case False
    have "is_ascii (join (item_separator indent (Suc level)) (map (dumps_at indent sk (Suc level)) xs))"
      by (rule is_ascii_join) (use 4 False in \<open>auto simp: is_ascii_item_separator\<close>)
    with False show ?thesis
      by (simp add: is_ascii_newline_indent)
  qed
next
  case (5 indent sk level kvs)
  show ?case
  proof (cases "kvs = []")
    case True
    then show ?thesis by (simp add: lit_def)
  next
    case False
    have "is_ascii (join (item_separator indent (Suc level))
             (map (\<lambda>(k, v). encode_basestring_ascii k @ lit '': '' @ dumps_at indent sk (Suc level) v)
                  (if sk then sort_key fst kvs else kvs)))"
    proof (rule is_ascii_join)
      show "is_ascii (item_separator indent (Suc level))"
        by (rule is_ascii_item_separator)
    next
      fix x
      assume "x \<in> set (map (\<lambda>(k, v). encode_basestring_ascii k @ lit '': '' @ dumps_at indent sk (Suc level) v)
                  (if sk then sort_key fst kvs else kvs))"
      then obtain k v where kv: "(k, v) \<in> set (if sk then sort_key fst kvs else kvs)"
        and x: "x = encode_basestring_ascii k @ lit '': '' @ dumps_at indent sk (Suc level) v"
        by auto
      from 5 [OF False kv refl] have "is_ascii (dumps_at indent sk (Suc level) v)" .
      then show "is_ascii x"
        by (simp add: x is_ascii_encode_basestring_ascii lit_def)
    qed
    with False show ?thesis
      by (simp add: is_ascii_newline_indent)
  qed
qed

lemma is_ascii_dumps: "is_ascii (dumps indent sk v)"
  by (simp add: dumps_def is_ascii_dumps_at)

lemma sha256_of_str_ascii: "is_ascii s \<Longrightarrow> sha256_of_str s = Inr (sha256_hexdigest (map of_nat s))"
  by (simp add: sha256_of_str_def encode_ascii)

lemma sha256_of_str_composite:
  assumes "encode tk = Inr tb" "is_ascii rest"
  shows "sha256_of_str (tk @ rest) = Inr (sha256_hexdigest (tb @ map of_nat rest))"
  using assms by (simp add: sha256_of_str_def encode_append encode_ascii)

subsection \<open>The steps of a derivation\<close>

lemma generate_InrE:
  assumes "generate_triton_cache_key w src = Inr (key, c)"
  obtains tk sh bh oh ev eh where
    "triton_key_call w = Inr tk"
    "sha256_of_str (source_or_dummy src) = Inr sh"
    "sha256_of_str (get_current_target w) = Inr bh"
    "sha256_of_str (dumps None True (options_dict w)) = Inr oh"
    "get_cache_invalidating_env_vars w = Inr ev"
    "sha256_of_str (dumps None True (env_items_json ev)) = Inr eh"
    "sha256_of_str (tk @ lit ''-'' @ sh @ lit ''-'' @ bh @ lit ''-'' @ oh @ lit ''-'' @ eh) = Inr key"
    "c = \<lparr>c_triton_key = tk,
          c_source_content = source_or_dummy src, c_source_hash = sh,
          c_backend_info = get_current_target w, c_backend_hash = bh,
          c_options_values = options_dict w, c_options_hash = oh,
          c_environment_variables = ev, c_environment_hash = eh,
          c_final_composite = tk @ lit ''-'' @ sh @ lit ''-'' @ bh @ lit ''-'' @ oh @ lit ''-'' @ eh\<rparr>"
  using assms
  unfolding generate_triton_cache_key_def get_env_vars_for_cache_def Let_def
  by (auto split: sum.splits)

lemma generate_InrI:
  assumes "triton_key_call w = Inr tk"
    "sha256_of_str (source_or_dummy src) = Inr sh"
    "sha256_of_str (get_current_target w) = Inr bh"
    "sha256_of_str (dumps None True (options_dict w)) = Inr oh"
    "get_cache_invalidating_env_vars w = Inr ev"
    "sha256_of_str (dumps None True (env_items_json ev)) = Inr eh"
    "sha256_of_str (tk @ lit ''-'' @ sh @ lit ''-'' @ bh @ lit ''-'' @ oh @ lit ''-'' @ eh) = Inr key"
  shows "generate_triton_cache_key w src =
     Inr (key, \<lparr>c_triton_key = tk,
          c_source_content = source_or_dummy src, c_source_hash = sh,
          c_backend_info = get_current_target w, c_backend_hash = bh,
          c_options_values = options_dict w, c_options_hash = oh,
          c_environment_variables = ev, c_environment_hash = eh,
          c_final_composite = tk @ lit ''-'' @ sh @ lit ''-'' @ bh @ lit ''-'' @ oh @ lit ''-'' @ eh\<rparr>)"
  using assms
  unfolding generate_triton_cache_key_def get_env_vars_for_cache_def Let_def
  by simp

lemma generate_succeeds:
  assumes tk: "triton_key_call w = Inr tk" and tb: "encode tk = Inr tb"
    and sb: "encode (source_or_dummy src) = Inr sb"
    and bb: "encode (get_current_target w) = Inr bb"
    and ev: "get_cache_invalidating_env_vars w = Inr ev"
  shows "\<exists>key c. generate_triton_cache_key w src = Inr (key, c)"
proof -
  let ?sh = "sha256_hexdigest sb" and ?bh = "sha256_hexdigest bb"
  let ?oh = "sha256_hexdigest (map of_nat (dumps None True (options_dict w)))"
  let ?eh = "sha256_hexdigest (map of_nat (dumps None True (env_items_json ev)))"
  let ?rest = "lit ''-'' @ ?sh @ lit ''-'' @ ?bh @ lit ''-'' @ ?oh @ lit ''-'' @ ?eh"
  have "is_ascii ?rest"
    by (simp add: is_ascii_lit_hyphen is_hex64_ascii is_hex64_sha256)
  then have fin: "sha256_of_str (tk @ ?rest) = Inr (sha256_hexdigest (tb @ map of_nat ?rest))"
    by (rule sha256_of_str_composite [OF tb])
  have s: "sha256_of_str (source_or_dummy src) = Inr ?sh"
    by (simp add: sha256_of_str_def sb)
  have b: "sha256_of_str (get_current_target w) = Inr ?bh"
    by (simp add: sha256_of_str_def bb)
  have opt: "sha256_of_str (dumps None True (options_dict w)) = Inr ?oh"
    by (rule sha256_of_str_ascii) (rule is_ascii_dumps)
  have e: "sha256_of_str (dumps None True (env_items_json ev)) = Inr ?eh"
    by (rule sha256_of_str_ascii) (rule is_ascii_dumps)
  from generate_InrI [OF tk s b opt ev e fin] show ?thesis
    by blast
qed

lemma generate_cong:
  assumes "triton_key_call w' = triton_key_call w"
    and "get_current_target w' = get_current_target w"
    and "options_dict w' = options_dict w"
    and "get_cache_invalidating_env_vars w' = get_cache_invalidating_env_vars w"
  shows "generate_triton_cache_key w' src = generate_triton_cache_key w src"
  unfolding generate_triton_cache_key_def get_env_vars_for_cache_def assms ..

lemma getenv_debug:
  "(getenv w (lit ''TRITON_DEBUG'') (lit ''0'') = lit ''1'')
     = (environ w (lit ''TRITON_DEBUG'') = Some (lit ''1''))"
  by (simp add: getenv_def lit_def split: option.splits)

lemma options_dict_environ:
  "options_dict w =
     JDict [(lit ''num_warps'', JInt 4), (lit ''num_stages'', JInt 3),
            (lit ''debug'', JBool (environ w (lit ''TRITON_DEBUG'') = Some (lit ''1'')))]"
  by (simp add: options_dict_def getenv_debug)

lemma dumps_options:
  \<open>dumps None True
     (JDict [(lit ''num_warps'', JInt 4), (lit ''num_stages'', JInt 3), (lit ''debug'', JBool b)])
   = (if b then lit ''{"debug": true, "num_stages": 3, "num_warps": 4}''
      else lit ''{"debug": false, "num_stages": 3, "num_warps": 4}'')\<close>
  by (simp add: dumps_def lit_def newline_indent_def item_separator_def
      encode_basestring_ascii_def escape_char_def str_int_def digits.simps)

lemma sort_pairs_unique:
  fixes ev ev' :: "(pystr \<times> pystr) list"
  assumes "set ev' = set ev" "distinct (map fst ev)" "distinct (map fst ev')"
  shows "sort ev' = sort ev"
proof (rule sorted_distinct_set_unique)
  from assms(2,3) have "distinct ev" "distinct ev'"
    by (simp_all add: distinct_map)
  then show "distinct (sort ev')" "distinct (sort ev)"
    by simp_all
  show "set (sort ev') = set (sort ev)"
    using assms(1) by simp
qed simp_all

lemma get_current_target_env_update [simp]:
  "get_current_target (w\<lparr>env_vars_call := x\<rparr>) = get_current_target w"
  by (simp add: get_current_target_def)

lemma options_dict_env_update [simp]:
  "options_dict (w\<lparr>env_vars_call := x\<rparr>) = options_dict w"
  by (simp add: options_dict_def getenv_def)

lemma options_dict_driver_update [simp]:
  "options_dict (w\<lparr>driver_call := x\<rparr>) = options_dict w"
  by (simp add: options_dict_def getenv_def)

lemma env_vars_driver_update [simp]:
  "get_cache_invalidating_env_vars (w\<lparr>driver_call := x\<rparr>) = get_cache_invalidating_env_vars w"
  by (simp add: get_cache_invalidating_env_vars_def)

lemma generate_env_failure:
  assumes "triton_key_call w = Inr tk"
    and "encode (source_or_dummy src) = Inr sb"
    and "encode (get_current_target w) = Inr bb"
    and "get_cache_invalidating_env_vars w = Inl e"
  shows "generate_triton_cache_key w src = Inl e"
proof -
  have "sha256_of_str (dumps None True (options_dict w))
      = Inr (sha256_hexdigest (map of_nat (dumps None True (options_dict w))))"
    by (rule sha256_of_str_ascii) (rule is_ascii_dumps)
  then show ?thesis
    unfolding generate_triton_cache_key_def get_env_vars_for_cache_def
    by (simp add: assms sha256_of_str_def)
qed

lemma generate_toolchain_failure:
  "triton_key_call w = Inl e \<Longrightarrow> generate_triton_cache_key w src = Inl e"
  by (simp add: generate_triton_cache_key_def)

subsection \<open>Failures and the command line\<close>

lemma encode_Inl: "encode s = Inl e \<Longrightarrow> e = UnicodeEncodeError"
  by (induction s) (auto split: option.splits sum.splits)

lemma sha256_of_str_Inl: "sha256_of_str s = Inl e \<Longrightarrow> e = UnicodeEncodeError"
  by (auto simp: sha256_of_str_def split: sum.splits dest: encode_Inl)

lemma env_vars_Inl:
  "get_cache_invalidating_env_vars w = Inl e \<Longrightarrow> env_vars_call w = Inl e \<and> \<not> is_ImportError e"
  by (auto simp: get_cache_invalidating_env_vars_def split: sum.splits if_splits)

lemma generate_Inl_cases:
  assumes "generate_triton_cache_key w src = Inl e"
  shows "triton_key_call w = Inl e \<or> (env_vars_call w = Inl e \<and> \<not> is_ImportError e)
    \<or> e = UnicodeEncodeError"
  using assms
  unfolding generate_triton_cache_key_def get_env_vars_for_cache_def Let_def
  by (auto split: sum.splits dest: sha256_of_str_Inl env_vars_Inl)

lemma main_failure: "generate_triton_cache_key w None = Inl e \<Longrightarrow> main w verbose = ([], 1)"
  by (simp add: main_def)

lemma run_prints_Inr:
  "run_prints (map Inr xs) out = (out @ concat (map (\<lambda>s. s @ [0x0A]) xs), None)"
  by (induction xs arbitrary: out) simp_all

lemma verbose_prints_Inr: "\<exists>xs. verbose_prints c = map Inr xs"
proof -
  have "list_all (\<lambda>p. \<not> isl p) (verbose_prints c)"
    by (simp add: verbose_prints_def)
  then have "verbose_prints c = map Inr (map projr (verbose_prints c))"
    by (induction "verbose_prints c" arbitrary: c) (auto simp: list_all_iff map_idI)
  then show ?thesis ..
qed

lemma main_success:
  assumes "generate_triton_cache_key w None = Inr (key, c)"
  shows "\<exists>before. main w verbose = (before @ [0x0A] @ key @ [0x0A], 0)"
proof -
  obtain xs where xs: "verbose_prints c = map Inr xs"
    using verbose_prints_Inr by blast
  let ?ys = "if verbose then xs else []"
  have "(if verbose then verbose_prints c else []) @ [Inr (0x0A # key)] = map Inr (?ys @ [0x0A # key])"
    by (simp add: xs)
  then have "run_prints ((if verbose then verbose_prints c else []) @ [Inr (0x0A # key)]) []
      = (concat (map (\<lambda>s. s @ [0x0A]) (?ys @ [0x0A # key])), None)"
    by (simp only: run_prints_Inr append_Nil)
  also have "concat (map (\<lambda>s. s @ [0x0A]) (?ys @ [0x0A # key]))
      = concat (map (\<lambda>s. s @ [0x0A]) ?ys) @ [0x0A] @ key @ [0x0A]"
    by simp
  finally have "main w verbose = (concat (map (\<lambda>s. s @ [0x0A]) ?ys) @ [0x0A] @ key @ [0x0A], 0)"
    by (simp add: main_def assms)
  then show ?thesis ..
qed

subsection \<open>The example world\<close>

lemma get_current_target_w_ok: "get_current_target w_ok = lit ''cuda-90-32''"
  by (simp add: get_current_target_def w_ok_def format_arch_def str_int_def digits.simps lit_def)

lemma w_ok_succeeds: "\<exists>key c. generate_triton_cache_key w_ok None = Inr (key, c)"
proof (rule generate_succeeds)
  show "triton_key_call w_ok = Inr (lit ''3.2.0-abc'')"
    by (simp add: w_ok_def)
  show "encode (lit ''3.2.0-abc'') = Inr (map of_nat (lit ''3.2.0-abc''))"
    by (rule encode_ascii) (simp add: lit_def)
  show "encode (source_or_dummy None) = Inr (map of_nat (lit ''dummy_source_content''))"
    unfolding source_or_dummy_def by (simp, rule encode_ascii) (simp add: lit_def)
  show "encode (get_current_target w_ok) = Inr (map of_nat (lit ''cuda-90-32''))"
    unfolding get_current_target_w_ok by (rule encode_ascii) (simp add: lit_def)
  show "get_cache_invalidating_env_vars w_ok = Inr ev_ok"
    by (simp add: get_cache_invalidating_env_vars_def w_ok_def)
qed

lemma source_or_dummy_None_encode:
  "encode (source_or_dummy None) = Inr (map of_nat (lit ''dummy_source_content''))"
  unfolding source_or_dummy_def by (simp, rule encode_ascii) (simp add: lit_def)

lemma w_ok_target_encode:
  "encode (get_current_target w_ok) = Inr (map of_nat (lit ''cuda-90-32''))"
  unfolding get_current_target_w_ok by (rule encode_ascii) (simp add: lit_def)

lemma w_ok_key_encode:
  "encode (lit ''3.2.0-abc'') = Inr (map of_nat (lit ''3.2.0-abc''))"
  by (rule encode_ascii) (simp add: lit_def)

lemma w_ok_registry_failure:
  "generate_triton_cache_key (w_ok\<lparr>env_vars_call := Inl e\<rparr>) None =
     (if is_ImportError e then generate_triton_cache_key (w_ok\<lparr>env_vars_call := Inr []\<rparr>) None
      else Inl e)"
proof (cases "is_ImportError e")
  case True
  have "generate_triton_cache_key (w_ok\<lparr>env_vars_call := Inl e\<rparr>) None
      = generate_triton_cache_key (w_ok\<lparr>env_vars_call := Inr []\<rparr>) None"
    by (rule generate_cong) (simp_all add: get_cache_invalidating_env_vars_def True)
  with True show ?thesis by simp
next
  case False
  have "generate_triton_cache_key (w_ok\<lparr>env_vars_call := Inl e\<rparr>) None = Inl e"
  proof (rule generate_env_failure)
    show "triton_key_call (w_ok\<lparr>env_vars_call := Inl e\<rparr>) = Inr (lit ''3.2.0-abc'')"
      by (simp add: w_ok_def)
    show "encode (source_or_dummy None) = Inr (map of_nat (lit ''dummy_source_content''))"
      by (rule source_or_dummy_None_encode)
    show "encode (get_current_target (w_ok\<lparr>env_vars_call := Inl e\<rparr>)) = Inr (map of_nat (lit ''cuda-90-32''))"
      by (simp add: w_ok_target_encode)
    show "get_cache_invalidating_env_vars (w_ok\<lparr>env_vars_call := Inl e\<rparr>) = Inl e"
      by (simp add: get_cache_invalidating_env_vars_def False)
  qed
  with False show ?thesis by simp
qed

lemma w_ok_empty_registry_succeeds:
  "\<exists>key c. generate_triton_cache_key (w_ok\<lparr>env_vars_call := Inr []\<rparr>) None = Inr (key, c)"
proof (rule generate_succeeds)
  show "triton_key_call (w_ok\<lparr>env_vars_call := Inr []\<rparr>) = Inr (lit ''3.2.0-abc'')"
    by (simp add: w_ok_def)
  show "encode (lit ''3.2.0-abc'') = Inr (map of_nat (lit ''3.2.0-abc''))"
    by (rule w_ok_key_encode)
  show "encode (source_or_dummy None) = Inr (map of_nat (lit ''dummy_source_content''))"
    by (rule source_or_dummy_None_encode)
  show "encode (get_current_target (w_ok\<lparr>env_vars_call := Inr []\<rparr>)) = Inr (map of_nat (lit ''cuda-90-32''))"
    by (simp add: w_ok_target_encode)
  show "get_cache_invalidating_env_vars (w_ok\<lparr>env_vars_call := Inr []\<rparr>) = Inr []"
    by (simp add: get_cache_invalidating_env_vars_def)
qed

lemma source_or_dummy_empty: "source_or_dummy (Some []) = source_or_dummy None"
  by (simp add: source_or_dummy_def)

lemma w_ok_empty_source_succeeds:
  "\<exists>key c. generate_triton_cache_key w_ok (Some []) = Inr (key, c)"
proof (rule generate_succeeds)
  show "triton_key_call w_ok = Inr (lit ''3.2.0-abc'')"
    by (simp add: w_ok_def)
  show "encode (lit ''3.2.0-abc'') = Inr (map of_nat (lit ''3.2.0-abc''))"
    by (rule w_ok_key_encode)
  show "encode (source_or_dummy (Some [])) = Inr (map of_nat (lit ''dummy_source_content''))"
    unfolding source_or_dummy_empty by (rule source_or_dummy_None_encode)
  show "encode (get_current_target w_ok) = Inr (map of_nat (lit ''cuda-90-32''))"
    by (rule w_ok_target_encode)
  show "get_cache_invalidating_env_vars w_ok = Inr ev_ok"
    by (simp add: get_cache_invalidating_env_vars_def w_ok_def)
qed

subsection \<open>The final key\<close>

text \<open>
  C1: when a derivation succeeds, the recorded toolchain fingerprint is the string the
  toolchain query returned (it is not hashed), the composite string is the fingerprint and
  the four component digests in the order source, backend, options, environment, joined
  by \<^verbatim>\<open>-\<close>, and the final key is the SHA-256 hexadecimal digest of the UTF-8 encoding of
  the composite string. Each component digest is the digest of its component: the source
  content, the backend descriptor, the serialised options, the serialised sorted
  environment pairs.
\<close>

theorem final_key_digest_of_composite:
  assumes "generate_triton_cache_key w src = Inr (key, c)"
  shows "triton_key_call w = Inr (c_triton_key c)
    \<and> c_final_composite c =
        c_triton_key c @ lit ''-'' @ c_source_hash c @ lit ''-'' @ c_backend_hash c
          @ lit ''-'' @ c_options_hash c @ lit ''-'' @ c_environment_hash c
    \<and> (\<exists>b. encode (c_final_composite c) = Inr b \<and> key = sha256_hexdigest b)
    \<and> (\<exists>b. encode (c_source_content c) = Inr b \<and> c_source_hash c = sha256_hexdigest b)
    \<and> (\<exists>b. encode (c_backend_info c) = Inr b \<and> c_backend_hash c = sha256_hexdigest b)
    \<and> (\<exists>b. encode (dumps None True (c_options_values c)) = Inr b
           \<and> c_options_hash c = sha256_hexdigest b)
    \<and> (\<exists>b. encode (dumps None True (env_items_json (c_environment_variables c))) = Inr b
           \<and> c_environment_hash c = sha256_hexdigest b)"
  using assms by (elim generate_InrE) (simp add: sha256_of_str_Inr)

theorem final_key_digest_of_composite_witness:
  "\<exists>key c. generate_triton_cache_key w_ok None = Inr (key, c)
     \<and> c_triton_key c = lit ''3.2.0-abc''
     \<and> c_final_composite c =
        lit ''3.2.0-abc'' @ lit ''-'' @ c_source_hash c @ lit ''-'' @ c_backend_hash c
          @ lit ''-'' @ c_options_hash c @ lit ''-'' @ c_environment_hash c
     \<and> (\<exists>b. encode (c_final_composite c) = Inr b \<and> key = sha256_hexdigest b)"
proof -
  from w_ok_succeeds obtain key c where ok: "generate_triton_cache_key w_ok None = Inr (key, c)"
    by blast
  from final_key_digest_of_composite [OF ok] have
    "triton_key_call w_ok = Inr (c_triton_key c)"
    "c_final_composite c =
        c_triton_key c @ lit ''-'' @ c_source_hash c @ lit ''-'' @ c_backend_hash c
          @ lit ''-'' @ c_options_hash c @ lit ''-'' @ c_environment_hash c"
    "\<exists>b. encode (c_final_composite c) = Inr b \<and> key = sha256_hexdigest b"
    by blast+
  moreover from this(1) have "c_triton_key c = lit ''3.2.0-abc''"
    by (simp add: w_ok_def)
  ultimately show ?thesis using ok by auto
qed

text \<open>
  C9: when a derivation succeeds, the final key and the four component digests are
  strings of exactly 64 characters, each one of \<^verbatim>\<open>0123456789abcdef\<close>.
\<close>

theorem digests_are_hex64:
  assumes "generate_triton_cache_key w src = Inr (key, c)"
  shows "is_hex64 key \<and> is_hex64 (c_source_hash c) \<and> is_hex64 (c_backend_hash c)
    \<and> is_hex64 (c_options_hash c) \<and> is_hex64 (c_environment_hash c)"
  using assms by (elim generate_InrE) (auto simp: sha256_of_str_Inr is_hex64_sha256)

theorem digests_are_hex64_witness:
  "\<exists>key c. generate_triton_cache_key w_ok None = Inr (key, c)
     \<and> is_hex64 key \<and> is_hex64 (c_source_hash c) \<and> is_hex64 (c_backend_hash c)
     \<and> is_hex64 (c_options_hash c) \<and> is_hex64 (c_environment_hash c)"
proof -
  from w_ok_succeeds obtain key c where ok: "generate_triton_cache_key w_ok None = Inr (key, c)"
    by blast
  from digests_are_hex64 [OF ok] ok show ?thesis
    by blast
qed

subsection \<open>The empty source text\<close>

text \<open>
  C10: the fallback \<^verbatim>\<open>source_hash or "dummy_source_content"\<close> tests truthiness, so the
  empty string is replaced by the placeholder: the call with the empty string returns what
  the call without a source text returns, the key and every component (or the same
  exception).
\<close>

theorem empty_source_is_absent_source:
  "generate_triton_cache_key w (Some []) = generate_triton_cache_key w None"
  unfolding generate_triton_cache_key_def source_or_dummy_empty ..


subsection \<open>The source component\<close>

text \<open>
  C3, as stated, fails for a source text that is given but empty: the recorded content is
  then the placeholder and not the given text, and the digest is the digest of the
  placeholder.
\<close>

theorem source_component_counterexample:
  "map_sum id (c_source_content \<circ> snd) (generate_triton_cache_key w_ok (Some []))
      = Inr (lit ''dummy_source_content'')
    \<and> lit ''dummy_source_content'' \<noteq> []"
proof -
  from w_ok_empty_source_succeeds obtain key c
    where ok: "generate_triton_cache_key w_ok (Some []) = Inr (key, c)"
    by blast
  then have "c_source_content c = source_or_dummy (Some [])"
    by (auto elim!: generate_InrE)
  then have "c_source_content c = lit ''dummy_source_content''"
    by (simp add: source_or_dummy_def)
  with ok show ?thesis
    by (simp add: lit_def)
qed

text \<open>
  C3, as amended: when a derivation succeeds, the recorded source content is the
  argument if one is given and it is not the empty string, and the placeholder
  \<^verbatim>\<open>dummy_source_content\<close> if the argument is absent or empty; the source digest is the
  SHA-256 hexadecimal digest of the UTF-8 encoding of the recorded content.
\<close>

theorem source_component:
  assumes "generate_triton_cache_key w src = Inr (key, c)"
  shows "c_source_content c =
       (case src of None \<Rightarrow> lit ''dummy_source_content''
        | Some s \<Rightarrow> if s = [] then lit ''dummy_source_content'' else s)
    \<and> (\<exists>b. encode (c_source_content c) = Inr b \<and> c_source_hash c = sha256_hexdigest b)"
  using assms by (elim generate_InrE) (simp add: sha256_of_str_Inr source_or_dummy_def)

theorem source_component_witness:
  "\<exists>key c. generate_triton_cache_key w_ok None = Inr (key, c)
     \<and> c_source_content c = lit ''dummy_source_content''
     \<and> (\<exists>b. encode (c_source_content c) = Inr b \<and> c_source_hash c = sha256_hexdigest b)"
proof -
  from w_ok_succeeds obtain key c where ok: "generate_triton_cache_key w_ok None = Inr (key, c)"
    by blast
  from source_component [OF ok] ok show ?thesis
    by auto
qed

subsection \<open>The options component\<close>

text \<open>
  C4: when a derivation succeeds, the options are the dictionary with \<^verbatim>\<open>num_warps\<close> 4,
  \<^verbatim>\<open>num_stages\<close> 3 and \<^verbatim>\<open>debug\<close> true exactly when the environment variable
  \<^verbatim>\<open>TRITON_DEBUG\<close> is set to the string \<^verbatim>\<open>1\<close>; their serialisation has the keys in
  the order debug, num_stages, num_warps; and the options digest is the SHA-256
  hexadecimal digest of that serialisation, which is ASCII and encodes to itself.
\<close>

theorem options_component:
  assumes \<open>generate_triton_cache_key w src = Inr (key, c)\<close>
  shows \<open>c_options_values c =
       JDict [(lit ''num_warps'', JInt 4), (lit ''num_stages'', JInt 3),
              (lit ''debug'', JBool (environ w (lit ''TRITON_DEBUG'') = Some (lit ''1'')))]
    \<and> dumps None True (c_options_values c) =
       (if environ w (lit ''TRITON_DEBUG'') = Some (lit ''1'')
        then lit ''{"debug": true, "num_stages": 3, "num_warps": 4}''
        else lit ''{"debug": false, "num_stages": 3, "num_warps": 4}'')
    \<and> c_options_hash c =
       sha256_hexdigest (map of_nat (dumps None True (c_options_values c)))
    \<and> encode (dumps None True (c_options_values c)) =
       Inr (map of_nat (dumps None True (c_options_values c)))\<close>
proof -
  from assms have v: "c_options_values c = options_dict w"
    and h: "sha256_of_str (dumps None True (options_dict w)) = Inr (c_options_hash c)"
    by (auto elim!: generate_InrE)
  have "sha256_of_str (dumps None True (options_dict w))
      = Inr (sha256_hexdigest (map of_nat (dumps None True (options_dict w))))"
    by (rule sha256_of_str_ascii) (rule is_ascii_dumps)
  with h have "c_options_hash c = sha256_hexdigest (map of_nat (dumps None True (options_dict w)))"
    by simp
  moreover have "encode (dumps None True (options_dict w)) =
       Inr (map of_nat (dumps None True (options_dict w)))"
    by (rule encode_ascii) (rule is_ascii_dumps)
  ultimately show ?thesis
    unfolding v using dumps_options by (simp add: options_dict_environ del: dumps_options)
qed


theorem options_component_witness:
  \<open>\<exists>key c. generate_triton_cache_key w_ok None = Inr (key, c)
     \<and> c_options_values c =
         JDict [(lit ''num_warps'', JInt 4), (lit ''num_stages'', JInt 3), (lit ''debug'', JBool False)]
     \<and> dumps None True (c_options_values c) = lit ''{"debug": false, "num_stages": 3, "num_warps": 4}''
     \<and> c_options_hash c =
         sha256_hexdigest (map of_nat (lit ''{"debug": false, "num_stages": 3, "num_warps": 4}''))\<close>
proof -
  from w_ok_succeeds obtain key c where ok: "generate_triton_cache_key w_ok None = Inr (key, c)"
    by blast
  have unset: "environ w_ok (lit ''TRITON_DEBUG'') \<noteq> Some (lit ''1'')"
    by (simp add: w_ok_def)
  from options_component [OF ok] unset ok show ?thesis
    by auto
qed

subsection \<open>The environment component\<close>

text \<open>
  C5: two dictionaries of cache-invalidating variables with the same pairs, in any
  insertion order, have the same serialisation, and the derivation with the one returns
  what the derivation with the other returns (the same key and digests, or the same
  exception), except that the dictionary it records is the one it was given.
\<close>

theorem environment_order_independent:
  assumes "env_vars_call w = Inr ev"
    and "set ev' = set ev" and "distinct (map fst ev)" and "distinct (map fst ev')"
  shows "dumps None True (env_items_json ev') = dumps None True (env_items_json ev)
    \<and> generate_triton_cache_key (w\<lparr>env_vars_call := Inr ev'\<rparr>) src =
        map_sum id (map_prod id (c_environment_variables_update (\<lambda>_. ev')))
          (generate_triton_cache_key w src)"
proof -
  have srt: "sort ev' = sort ev"
    using assms(2-4) by (rule sort_pairs_unique)
  then have js: "env_items_json ev' = env_items_json ev"
    by (simp add: env_items_json_def)
  have "generate_triton_cache_key (w\<lparr>env_vars_call := Inr ev'\<rparr>) src =
        map_sum id (map_prod id (c_environment_variables_update (\<lambda>_. ev')))
          (generate_triton_cache_key w src)"
    unfolding generate_triton_cache_key_def get_env_vars_for_cache_def
    by (simp add: get_cache_invalidating_env_vars_def assms(1) js Let_def split: sum.splits)
  with js show ?thesis
    by simp
qed

theorem environment_order_independent_witness:
  "dumps None True (env_items_json (rev ev_ok)) = dumps None True (env_items_json ev_ok)
    \<and> generate_triton_cache_key (w_ok\<lparr>env_vars_call := Inr (rev ev_ok)\<rparr>) None =
        map_sum id (map_prod id (c_environment_variables_update (\<lambda>_. rev ev_ok)))
          (generate_triton_cache_key w_ok None)
    \<and> rev ev_ok \<noteq> ev_ok"
proof -
  have 1: "env_vars_call w_ok = Inr ev_ok"
    by (simp add: w_ok_def ev_ok_def)
  have 2: "set (rev ev_ok) = set ev_ok"
    by simp
  have 3: "distinct (map fst ev_ok)"
    by (simp add: ev_ok_def lit_def)
  then have 4: "distinct (map fst (rev ev_ok))"
    by (simp add: rev_map [symmetric] del: rev_map)
  have "rev ev_ok \<noteq> ev_ok"
    by (simp add: ev_ok_def lit_def)
  with environment_order_independent [OF 1 2 3 4, of None] show ?thesis
    by simp
qed

text \<open>
  C6, as stated, fails: when the registry query raises an exception that is no
  \<^verbatim>\<open>ImportError\<close>, here a \<^verbatim>\<open>RuntimeError\<close>, the derivation raises it, although with an
  empty dictionary it returns a key.
\<close>

theorem registry_failure_counterexample:
  "generate_triton_cache_key (w_ok\<lparr>env_vars_call := Inl RuntimeError\<rparr>) None = Inl RuntimeError
    \<and> \<not> isl (generate_triton_cache_key (w_ok\<lparr>env_vars_call := Inr []\<rparr>) None)"
proof -
  from w_ok_empty_registry_succeeds
  have "\<not> isl (generate_triton_cache_key (w_ok\<lparr>env_vars_call := Inr []\<rparr>) None)"
    by auto
  then show ?thesis
    by (simp add: w_ok_registry_failure)
qed

text \<open>
  C6, as amended: when the registry query raises an \<^verbatim>\<open>ImportError\<close> (or its subclass
  \<^verbatim>\<open>ModuleNotFoundError\<close>), the empty dictionary is substituted and the derivation
  returns what it returns for an empty dictionary; when moreover the toolchain query
  answers and the fingerprint, the source text and the backend descriptor can be encoded,
  it returns a key, with no variables recorded.
\<close>

theorem registry_import_error_degrades:
  assumes "is_ImportError e"
  shows "get_cache_invalidating_env_vars (w\<lparr>env_vars_call := Inl e\<rparr>) = Inr []
    \<and> generate_triton_cache_key (w\<lparr>env_vars_call := Inl e\<rparr>) src =
        generate_triton_cache_key (w\<lparr>env_vars_call := Inr []\<rparr>) src
    \<and> (triton_key_call w = Inr tk \<and> encode tk = Inr tb
          \<and> encode (source_or_dummy src) = Inr sb \<and> encode (get_current_target w) = Inr bb
        \<longrightarrow> (\<exists>key c. generate_triton_cache_key (w\<lparr>env_vars_call := Inl e\<rparr>) src = Inr (key, c)
              \<and> c_environment_variables c = []))"
proof -
  have q: "get_cache_invalidating_env_vars (w\<lparr>env_vars_call := Inl e\<rparr>) = Inr []"
    by (simp add: get_cache_invalidating_env_vars_def assms)
  have eq: "generate_triton_cache_key (w\<lparr>env_vars_call := Inl e\<rparr>) src =
        generate_triton_cache_key (w\<lparr>env_vars_call := Inr []\<rparr>) src"
    by (rule generate_cong) (simp_all add: get_cache_invalidating_env_vars_def assms)
  have "\<exists>key c. generate_triton_cache_key (w\<lparr>env_vars_call := Inl e\<rparr>) src = Inr (key, c)
              \<and> c_environment_variables c = []"
    if h: "triton_key_call w = Inr tk" "encode tk = Inr tb"
      "encode (source_or_dummy src) = Inr sb" "encode (get_current_target w) = Inr bb"
  proof -
    have "\<exists>key c. generate_triton_cache_key (w\<lparr>env_vars_call := Inl e\<rparr>) src = Inr (key, c)"
      by (rule generate_succeeds [OF _ h(2) h(3) _ q]) (simp_all add: h)
    then obtain key c where ok: "generate_triton_cache_key (w\<lparr>env_vars_call := Inl e\<rparr>) src = Inr (key, c)"
      by blast
    then have "c_environment_variables c = []"
      using q by (auto elim!: generate_InrE)
    with ok show ?thesis by blast
  qed
  with q eq show ?thesis
    by blast
qed

theorem registry_import_error_degrades_witness:
  "is_ImportError ModuleNotFoundError
    \<and> generate_triton_cache_key (w_ok\<lparr>env_vars_call := Inl ModuleNotFoundError\<rparr>) None =
        generate_triton_cache_key (w_ok\<lparr>env_vars_call := Inr []\<rparr>) None
    \<and> (\<exists>key c. generate_triton_cache_key (w_ok\<lparr>env_vars_call := Inl ModuleNotFoundError\<rparr>) None
          = Inr (key, c) \<and> c_environment_variables c = [])"
proof -
  have i: "is_ImportError ModuleNotFoundError"
    by simp
  have k: "triton_key_call w_ok = Inr (lit ''3.2.0-abc'')"
    by (simp add: w_ok_def)
  note r = registry_import_error_degrades [OF i, where w = w_ok and src = None
      and tk = "lit ''3.2.0-abc''" and tb = "map of_nat (lit ''3.2.0-abc'')"
      and sb = "map of_nat (lit ''dummy_source_content'')"
      and bb = "map of_nat (lit ''cuda-90-32'')"]
  from r have eq: "generate_triton_cache_key (w_ok\<lparr>env_vars_call := Inl ModuleNotFoundError\<rparr>) None =
        generate_triton_cache_key (w_ok\<lparr>env_vars_call := Inr []\<rparr>) None"
    by blast
  from r k w_ok_key_encode source_or_dummy_None_encode w_ok_target_encode
  have ex: "\<exists>key c. generate_triton_cache_key (w_ok\<lparr>env_vars_call := Inl ModuleNotFoundError\<rparr>) None
          = Inr (key, c) \<and> c_environment_variables c = []"
    by blast
  from i eq ex show ?thesis
    by blast
qed


subsection \<open>Determinism\<close>

text \<open>
  C2: two runs with the same answer of the toolchain query, the same backend descriptor,
  the same value of \<^verbatim>\<open>TRITON_DEBUG\<close> and the same answer of the registry query return the
  same result for the same source text: the same key and components, or the same
  exception. Nothing else of the environment or of the driver's answer matters.
\<close>

theorem derivation_deterministic:
  assumes "triton_key_call w' = triton_key_call w"
    and "get_current_target w' = get_current_target w"
    and "environ w' (lit ''TRITON_DEBUG'') = environ w (lit ''TRITON_DEBUG'')"
    and "env_vars_call w' = env_vars_call w"
  shows "generate_triton_cache_key w' src = generate_triton_cache_key w src"
proof (rule generate_cong)
  show "options_dict w' = options_dict w"
    by (simp add: options_dict_environ assms(3))
  show "get_cache_invalidating_env_vars w' = get_cache_invalidating_env_vars w"
    by (simp add: get_cache_invalidating_env_vars_def assms(4))
qed (fact assms(1) assms(2))+



theorem derivation_deterministic_witness:
  "driver_call w_alt \<noteq> driver_call w_ok
    \<and> environ w_alt (lit ''HOME'') \<noteq> environ w_ok (lit ''HOME'')
    \<and> generate_triton_cache_key w_alt None = generate_triton_cache_key w_ok None"
proof -
  have 1: "triton_key_call w_alt = triton_key_call w_ok"
    by (simp add: w_alt_def w_ok_def)
  have 2: "get_current_target w_alt = get_current_target w_ok"
    by (simp add: get_current_target_w_ok)
      (simp add: get_current_target_def w_alt_def format_arch_def str_int_def digits.simps lit_def)
  have 3: "environ w_alt (lit ''TRITON_DEBUG'') = environ w_ok (lit ''TRITON_DEBUG'')"
    by (simp add: w_alt_def w_ok_def lit_def)
  have 4: "env_vars_call w_alt = env_vars_call w_ok"
    by (simp add: w_alt_def w_ok_def)
  have "driver_call w_alt \<noteq> driver_call w_ok"
    by (simp add: w_alt_def w_ok_def)
  moreover have "environ w_alt (lit ''HOME'') \<noteq> environ w_ok (lit ''HOME'')"
    by (simp add: w_alt_def w_ok_def)
  ultimately show ?thesis
    using derivation_deterministic [OF 1 2 3 4, of None] by simp
qed

subsection \<open>A failing driver query\<close>

text \<open>
  C7: whatever exception the driver query raises, the backend descriptor is the sentinel
  \<^verbatim>\<open>unknown-backend-0-0\<close>; the exception is not propagated: when the toolchain and the
  registry answer and the fingerprint and the source text can be encoded, the derivation
  returns a key, the recorded descriptor is the sentinel, and the backend digest is the
  SHA-256 hexadecimal digest of the sentinel.
\<close>

theorem driver_failure_degrades:
  assumes "triton_key_call w = Inr tk" and "encode tk = Inr tb"
    and "encode (source_or_dummy src) = Inr sb"
    and "get_cache_invalidating_env_vars w = Inr ev"
  shows "get_current_target (w\<lparr>driver_call := Inl e\<rparr>) = lit ''unknown-backend-0-0''
    \<and> (\<exists>key c. generate_triton_cache_key (w\<lparr>driver_call := Inl e\<rparr>) src = Inr (key, c)
          \<and> c_backend_info c = lit ''unknown-backend-0-0''
          \<and> encode (lit ''unknown-backend-0-0'') = Inr (map of_nat (lit ''unknown-backend-0-0''))
          \<and> c_backend_hash c = sha256_hexdigest (map of_nat (lit ''unknown-backend-0-0'')))"
proof -
  let ?w = "w\<lparr>driver_call := Inl e\<rparr>"
  have t: "get_current_target ?w = lit ''unknown-backend-0-0''"
    by (simp add: get_current_target_def)
  have enc: "encode (lit ''unknown-backend-0-0'') = Inr (map of_nat (lit ''unknown-backend-0-0''))"
    by (rule encode_ascii) (simp add: lit_def)
  have "\<exists>key c. generate_triton_cache_key ?w src = Inr (key, c)"
  proof (rule generate_succeeds)
    show "triton_key_call ?w = Inr tk" by (simp add: assms(1))
    show "encode tk = Inr tb" by (fact assms(2))
    show "encode (source_or_dummy src) = Inr sb" by (fact assms(3))
    show "encode (get_current_target ?w) = Inr (map of_nat (lit ''unknown-backend-0-0''))"
      unfolding t by (rule enc)
    show "get_cache_invalidating_env_vars ?w = Inr ev" by (simp add: assms(4))
  qed
  then obtain key c where ok: "generate_triton_cache_key ?w src = Inr (key, c)"
    by blast
  then have "c_backend_info c = get_current_target ?w"
    and "sha256_of_str (get_current_target ?w) = Inr (c_backend_hash c)"
    by (auto elim!: generate_InrE)
  then have "c_backend_info c = lit ''unknown-backend-0-0''"
    and "c_backend_hash c = sha256_hexdigest (map of_nat (lit ''unknown-backend-0-0''))"
    unfolding t by (simp_all add: sha256_of_str_def enc)
  with t enc ok show ?thesis
    by blast
qed

theorem driver_failure_degrades_witness:
  "get_current_target (w_ok\<lparr>driver_call := Inl RuntimeError\<rparr>) = lit ''unknown-backend-0-0''
    \<and> (\<exists>key c. generate_triton_cache_key (w_ok\<lparr>driver_call := Inl RuntimeError\<rparr>) None = Inr (key, c)
          \<and> c_backend_info c = lit ''unknown-backend-0-0''
          \<and> c_backend_hash c = sha256_hexdigest (map of_nat (lit ''unknown-backend-0-0'')))"
proof -
  have 1: "triton_key_call w_ok = Inr (lit ''3.2.0-abc'')"
    by (simp add: w_ok_def)
  have 4: "get_cache_invalidating_env_vars w_ok = Inr ev_ok"
    by (simp add: get_cache_invalidating_env_vars_def w_ok_def)
  from driver_failure_degrades [OF 1 w_ok_key_encode source_or_dummy_None_encode 4, of RuntimeError]
  show ?thesis
    by blast
qed



subsection \<open>A failing toolchain query\<close>

text \<open>
  C8, as stated, fails in its last part: the failure of the toolchain query is not the
  only one that reaches the top level. Here the toolchain query answers and the registry
  query raises an exception that is no \<^verbatim>\<open>ImportError\<close>: the derivation raises it, and
  the command line prints nothing and exits with status 1.
\<close>

theorem toolchain_only_fatal_counterexample:
  "triton_key_call (w_ok\<lparr>env_vars_call := Inl (OtherException (lit ''boom''))\<rparr>)
      = Inr (lit ''3.2.0-abc'')
    \<and> generate_triton_cache_key (w_ok\<lparr>env_vars_call := Inl (OtherException (lit ''boom''))\<rparr>) None
      = Inl (OtherException (lit ''boom''))
    \<and> main (w_ok\<lparr>env_vars_call := Inl (OtherException (lit ''boom''))\<rparr>) False = ([], 1)"
proof -
  have g: "generate_triton_cache_key (w_ok\<lparr>env_vars_call := Inl (OtherException (lit ''boom''))\<rparr>) None
      = Inl (OtherException (lit ''boom''))"
    by (simp add: w_ok_registry_failure)
  from g main_failure [OF g] show ?thesis
    by (simp add: w_ok_def)
qed

text \<open>
  C8, as amended: when the toolchain query raises, the derivation raises the same
  exception, and the command line prints nothing and exits with status 1. An exception
  of a derivation is that of the toolchain query, or that of the registry query when it
  is no \<^verbatim>\<open>ImportError\<close>, or a \<^verbatim>\<open>UnicodeEncodeError\<close>; so a failure of the driver query
  never reaches the top level.
\<close>

theorem toolchain_failure_fatal:
  "(triton_key_call w = Inl e \<longrightarrow>
      generate_triton_cache_key w src = Inl e \<and> main w verbose = ([], 1))
    \<and> (generate_triton_cache_key w src = Inl e' \<longrightarrow>
      triton_key_call w = Inl e' \<or> (env_vars_call w = Inl e' \<and> \<not> is_ImportError e')
        \<or> e' = UnicodeEncodeError)"
  using generate_toolchain_failure [of w e] main_failure [of w e verbose] generate_Inl_cases [of w src e']
  by blast

theorem toolchain_failure_fatal_witness:
  "triton_key_call (w_ok\<lparr>triton_key_call := Inl RuntimeError\<rparr>) = Inl RuntimeError
    \<and> generate_triton_cache_key (w_ok\<lparr>triton_key_call := Inl RuntimeError\<rparr>) None = Inl RuntimeError
    \<and> main (w_ok\<lparr>triton_key_call := Inl RuntimeError\<rparr>) True = ([], 1)"
proof -
  have "triton_key_call (w_ok\<lparr>triton_key_call := Inl RuntimeError\<rparr>) = Inl RuntimeError"
    by simp
  with toolchain_failure_fatal [of "w_ok\<lparr>triton_key_call := Inl RuntimeError\<rparr>" RuntimeError None True]
  show ?thesis
    by blast
qed


end
